theory Spec2Isabelle
  imports Main "HOL-Library.Word"
begin

text \<open>
  Strings are byte strings throughout: the UTF-8 encoding of the program's text.
\<close>

section \<open>Random identifiers\<close>

text \<open>
  \<^verbatim>\<open>secrets.token_hex(n)\<close> draws \<open>n\<close> bytes from the operating system's entropy
  source and renders each byte as two lowercase hexadecimal digits. The entropy source is
  an endless stream of bytes that is passed in and handed back advanced, so that the
  results below hold for whatever bytes are drawn.
\<close>

type_synonym byte = "8 word"

type_synonym entropy = "nat \<Rightarrow> byte"

definition token_bytes :: "nat \<Rightarrow> entropy \<Rightarrow> byte list \<times> entropy" where
  "token_bytes n src = (map src [0..<n], \<lambda>i. src (i + n))"

definition hexdigits :: string where
  "hexdigits = ''0123456789abcdef''"

definition hexlify :: "byte \<Rightarrow> string" where
  "hexlify b = [hexdigits ! (unat b div 16), hexdigits ! (unat b mod 16)]"

definition token_hex :: "nat \<Rightarrow> entropy \<Rightarrow> string \<times> entropy" where
  "token_hex n src =
     (case token_bytes n src of (bs, src') \<Rightarrow> (concat (map hexlify bs), src'))"

text \<open>
  \<^verbatim>\<open>str.upper()\<close> on ASCII text, which is all that \<open>token_hex\<close> yields: the
  letters a to z move to A to Z and every other character stays.
\<close>

definition upper_char :: "char \<Rightarrow> char" where
  "upper_char c =
     (let n = (of_char c :: nat) in if 97 \<le> n \<and> n \<le> 122 then char_of (n - 32) else c)"

definition upper :: "string \<Rightarrow> string" where
  "upper s = map upper_char s"

text \<open>\<^verbatim>\<open>def generate_random_hex(bytes_length=32)\<close>: \<open>None\<close> is the omitted argument.\<close>

definition generate_random_hex :: "nat option \<Rightarrow> entropy \<Rightarrow> string \<times> entropy" where
  "generate_random_hex bytes_length src =
     token_hex (case bytes_length of None \<Rightarrow> 32 | Some n \<Rightarrow> n) src"

definition generate_client_id :: "entropy \<Rightarrow> string \<times> entropy" where
  "generate_client_id src = (case token_hex 7 src of (s, src') \<Rightarrow> (upper s, src'))"

definition lower_hex :: "string \<Rightarrow> bool" where
  "lower_hex s = list_all (\<lambda>c. c \<in> set ''0123456789abcdef'') s"

definition upper_hex :: "string \<Rightarrow> bool" where
  "upper_hex s = list_all (\<lambda>c. c \<in> set ''0123456789ABCDEF'') s"

text \<open>The form of a secret key that \<open>generate_random_hex\<close> returns by default.\<close>

definition generated_key :: "string \<Rightarrow> bool" where
  "generated_key k = (length k = 64 \<and> lower_hex k)"

section \<open>Exceptions and their HTTP status\<close>

text \<open>
  The ways in which \<^verbatim>\<open>jwt.decode\<close> rejects a token here; each is a subclass of
  \<^verbatim>\<open>InvalidTokenError\<close>, and \<open>InvalidClaimError\<close> stands for the subclasses
  that are not named.
\<close>

datatype jwt_error =
  DecodeError | InvalidAlgorithmError | InvalidSignatureError | ImmatureSignatureError
  | ExpiredSignatureError | InvalidAudienceError | InvalidSubjectError | InvalidClaimError

text \<open>
  \<open>IntegrityError\<close> and \<open>DBAPIError\<close> are raised by the database layer, \<open>ValueError\<close>
  by the password hashing library.
\<close>

datatype exn =
  HTTPException nat string "(string \<times> string) list"
  | InvalidTokenError jwt_error
  | IntegrityError
  | DBAPIError
  | ValueError
  | OverflowError
  | AttributeError

text \<open>
  The framework answers a raised \<^verbatim>\<open>HTTPException\<close> with its own status code and any
  other exception that leaves an endpoint with 500 Internal Server Error.
\<close>

fun status_code :: "exn \<Rightarrow> nat" where
  "status_code (HTTPException code detail headers) = code"
| "status_code (InvalidTokenError e) = 500"
| "status_code IntegrityError = 500"
| "status_code DBAPIError = 500"
| "status_code ValueError = 500"
| "status_code OverflowError = 500"
| "status_code AttributeError = 500"

section \<open>The user table\<close>

text \<open>
  \<^verbatim>\<open>UserModel\<close>: one row of the table \<open>users\<close>. The table is the list of its rows in
  insertion order. The columns \<open>username\<close>, \<open>email\<close>, \<open>secret_key\<close> and \<open>client_id\<close>
  are declared \<^verbatim>\<open>unique=True\<close> and \<open>id\<close> is the primary key.
\<close>

record user_model =
  id_pk :: nat
  username :: string
  email :: string
  hashed_password :: string
  activated :: bool
  secret_key :: string
  client_id :: string

type_synonym session = "user_model list"

definition unique_columns :: "session \<Rightarrow> bool" where
  "unique_columns db =
     (distinct (map id_pk db) \<and> distinct (map username db) \<and> distinct (map email db) \<and>
      distinct (map secret_key db) \<and> distinct (map client_id db))"

text \<open>Every stored secret key has the form in which \<open>register_user\<close> generates it.\<close>

definition generated_keys :: "session \<Rightarrow> bool" where
  "generated_keys db = list_all (\<lambda>u. generated_key (secret_key u)) db"

text \<open>
  A value decoded from JSON, as far as the program and the database driver tell values
  apart: \<open>JNull\<close> is \<^verbatim>\<open>None\<close> (a missing key or \<^verbatim>\<open>null\<close>), \<open>JString\<close> a string,
  \<open>JScalar\<close> a number or boolean with the text that the database compares it as, and
  \<open>JContainer\<close> a list or object.
\<close>

datatype json_value = JNull | JString string | JScalar string | JContainer

text \<open>
  \<^verbatim>\<open>db.query(UserModel).filter(UserModel.username == username).first()\<close>. The
  value of \<open>username\<close> is bound as a parameter of the query: a string, and a scalar by its
  text, are compared with the column; \<^verbatim>\<open>None\<close> matches no row, since every row has a
  username; a list or object cannot be bound, and the query raises.
\<close>

fun get_user :: "session \<Rightarrow> json_value \<Rightarrow> exn + user_model option" where
  "get_user db (JString name) = Inr (find (\<lambda>u. username u = name) db)"
| "get_user db (JScalar text) = Inr (find (\<lambda>u. username u = text) db)"
| "get_user db JNull = Inr None"
| "get_user db JContainer = Inl DBAPIError"

section \<open>Clock values\<close>

text \<open>
  A \<^verbatim>\<open>datetime\<close> in UTC is the number of microseconds since the epoch, a
  \<^verbatim>\<open>timedelta\<close> a number of microseconds. A \<^verbatim>\<open>datetime\<close> lies between
  0001-01-01 00:00:00 and 9999-12-31 23:59:59.999999; adding a \<^verbatim>\<open>timedelta\<close> that
  leaves this range raises \<^verbatim>\<open>OverflowError\<close>.
\<close>

type_synonym datetime = int

type_synonym timedelta = int

definition datetime_min :: datetime where
  "datetime_min = - 62135596800000000"

definition datetime_max :: datetime where
  "datetime_max = 253402300799999999"

definition minutes :: "int \<Rightarrow> timedelta" where
  "minutes m = m * 60 * 1000000"

definition datetime_add :: "datetime \<Rightarrow> timedelta \<Rightarrow> exn + datetime" where
  "datetime_add t d =
     (if datetime_min \<le> t + d \<and> t + d \<le> datetime_max then Inr (t + d) else Inl OverflowError)"

text \<open>\<^verbatim>\<open>timegm(t.utctimetuple())\<close>: the whole seconds of \<open>t\<close>, its microseconds dropped.\<close>

definition timegm :: "datetime \<Rightarrow> int" where
  "timegm t = t div 1000000"

text \<open>
  \<^verbatim>\<open>t.timestamp()\<close> is a double: the quotient of the microseconds of \<open>t\<close> by
  \<open>10\<^sup>6\<close>, rounded to 53 significant bits, ties to even. It is kept as the integer
  \<open>mantissa t\<close> over \<open>2 ^ scale t\<close>, where \<open>scale t\<close> is the least number of binary
  places that brings the quotient to \<open>2\<^sup>5\<^sup>2\<close> or above. Every \<^verbatim>\<open>datetime\<close> is below
  \<open>2\<^sup>5\<^sup>2\<close> seconds in size, so no scale is negative.
\<close>

definition round_half_even :: "int \<Rightarrow> int \<Rightarrow> int" where
  "round_half_even a b =
     (let q = a div b; r = a mod b
      in if 2 * r < b then q else if b < 2 * r then q + 1 else if even q then q else q + 1)"

definition scale :: "datetime \<Rightarrow> nat" where
  "scale t =
     (case find (\<lambda>s. 2 ^ 52 * 1000000 \<le> \<bar>t\<bar> * 2 ^ s) [0..<73] of None \<Rightarrow> 0 | Some s \<Rightarrow> s)"

definition mantissa :: "datetime \<Rightarrow> int" where
  "mantissa t = round_half_even (t * 2 ^ scale t) 1000000"

text \<open>The comparison \<^verbatim>\<open>e <= t.timestamp()\<close> of an integer with that double.\<close>

definition le_timestamp :: "int \<Rightarrow> datetime \<Rightarrow> bool" where
  "le_timestamp e t = (e * 2 ^ scale t \<le> mantissa t)"

section \<open>JSON web tokens\<close>

text \<open>
  The token library is outside the repository; it is modelled at the level of the parsed
  token. A token string either does not parse (\<open>Malformed\<close>) or consists of a header, a
  payload and a signature. Of the payload the program reads \<open>sub\<close>; the library reads
  \<open>exp\<close>, \<open>nbf\<close> and \<open>iat\<close> (whole seconds since the epoch, or absent), whether
  there is a non-empty \<open>aud\<close>, and whether \<open>sub\<close> is a string. \<open>refused\<close> says
  that the payload holds some other claim that the library rejects with an
  \<^verbatim>\<open>InvalidTokenError\<close> whatever the clock reads, such as a time claim that is
  not a number or a \<open>jti\<close> that is not a string.

  Signatures are symbolic. HMAC first brings its key to the block length of 64 bytes: a
  shorter key is padded with zero bytes, a longer one replaced by its digest, which is
  kept symbolic (\<open>Inr\<close>) and is not identified with any 64-byte block. \<open>Sign a b h p\<close>
  is what algorithm \<open>a\<close> computes under key block \<open>b\<close> over header \<open>h\<close> and payload
  \<open>p\<close>; two signatures are equal only when made by the same algorithm with the same key
  block over the same input, and \<open>RawSignature\<close> is any other byte string.
\<close>

record jose_header =
  alg :: string
  typ_hdr :: string

record payload =
  sub :: json_value
  exp :: "int option"
  nbf :: "int option"
  iat :: "int option"
  aud :: bool
  refused :: bool

definition hmac_block :: "string \<Rightarrow> string + string" where
  "hmac_block key =
     (if length key \<le> 64 then Inl (key @ replicate (64 - length key) (CHR 0x00)) else Inr key)"

datatype signature =
  Sign string "string + string" jose_header payload | RawSignature string

datatype token = Malformed string | Compact jose_header payload signature

text \<open>The dictionary handed to \<^verbatim>\<open>jwt.encode\<close>: \<open>exp\<close> is still a \<^verbatim>\<open>datetime\<close>.\<close>

record claims =
  c_sub :: "string option"
  c_exp :: "datetime option"

definition ALGORITHM :: string where
  "ALGORITHM = ''HS256''"

definition ACCESS_TOKEN_EXPIRE_MINUTES :: int where
  "ACCESS_TOKEN_EXPIRE_MINUTES = 30"

text \<open>
  \<^verbatim>\<open>jwt.encode(payload, key, algorithm)\<close> turns a \<^verbatim>\<open>datetime\<close> under \<open>exp\<close> into
  whole seconds, and signs header and payload.
\<close>

definition jwt_encode :: "claims \<Rightarrow> string \<Rightarrow> string \<Rightarrow> token" where
  "jwt_encode c key algorithm =
     (let h = \<lparr>alg = algorithm, typ_hdr = ''JWT''\<rparr>;
          p = \<lparr>sub = (case c_sub c of None \<Rightarrow> JNull | Some name \<Rightarrow> JString name),
               exp = map_option timegm (c_exp c), nbf = None, iat = None, aud = False,
               refused = False\<rparr>
      in Compact h p (Sign algorithm (hmac_block key) h p))"

text \<open>
  \<^verbatim>\<open>jwt.decode(token, options={"verify_signature": False})\<close>: the payload of any token
  that parses; neither the signature nor any claim is looked at.
\<close>

fun jwt_decode_unverified :: "token \<Rightarrow> jwt_error + payload" where
  "jwt_decode_unverified (Malformed s) = Inl DecodeError"
| "jwt_decode_unverified (Compact h p s) = Inr p"

text \<open>
  \<^verbatim>\<open>jwt.decode(token, key, algorithms)\<close> at clock reading \<open>now\<close>. The header's
  algorithm has to be one of \<open>algorithms\<close> and the signature the one that algorithm
  computes under \<open>key\<close>. Then the claims are validated against \<^verbatim>\<open>now.timestamp()\<close>:
  \<open>iat\<close> and \<open>nbf\<close> must not lie after it, a token is expired once \<open>exp\<close> is at or
  before it, no audience is expected, no other claim may be one that the library
  refuses, and \<open>sub\<close> has to be a string.
\<close>

fun jwt_decode :: "datetime \<Rightarrow> token \<Rightarrow> string \<Rightarrow> string list \<Rightarrow> jwt_error + payload" where
  "jwt_decode now (Malformed s) key algorithms = Inl DecodeError"
| "jwt_decode now (Compact h p s) key algorithms =
     (if alg h \<notin> set algorithms then Inl InvalidAlgorithmError
      else if s \<noteq> Sign (alg h) (hmac_block key) h p then Inl InvalidSignatureError
      else if (case iat p of None \<Rightarrow> False | Some i \<Rightarrow> \<not> le_timestamp i now)
        then Inl ImmatureSignatureError
      else if (case nbf p of None \<Rightarrow> False | Some n \<Rightarrow> \<not> le_timestamp n now)
        then Inl ImmatureSignatureError
      else if (case exp p of None \<Rightarrow> False | Some e \<Rightarrow> le_timestamp e now)
        then Inl ExpiredSignatureError
      else if aud p then Inl InvalidAudienceError
      else if refused p then Inl InvalidClaimError
      else (case sub p of
              JNull \<Rightarrow> Inr p
            | JString name \<Rightarrow> Inr p
            | JScalar text \<Rightarrow> Inl InvalidSubjectError
            | JContainer \<Rightarrow> Inl InvalidSubjectError))"

section \<open>Passwords\<close>

text \<open>
  \<^verbatim>\<open>pwd_context\<close>: the password hashing library, taken as a parameter. \<open>cc_hash\<close> is
  its \<^verbatim>\<open>hash\<close> with the salt it draws, \<open>cc_verify\<close> its \<^verbatim>\<open>verify\<close>; either
  may raise instead of returning, as the library does on a password that holds a zero
  byte.
\<close>

record crypt_context =
  cc_hash :: "string \<Rightarrow> exn + string"
  cc_verify :: "string \<Rightarrow> string \<Rightarrow> exn + bool"

definition verify_password :: "crypt_context \<Rightarrow> string \<Rightarrow> string \<Rightarrow> exn + bool" where
  "verify_password pwd_context plain_password hashed = cc_verify pwd_context plain_password hashed"

definition get_password_hash :: "crypt_context \<Rightarrow> string \<Rightarrow> exn + string" where
  "get_password_hash pwd_context password = cc_hash pwd_context password"

text \<open>\<^verbatim>\<open>authenticate_user\<close> returns the user, or \<^verbatim>\<open>False\<close> (here \<open>None\<close>).\<close>

definition authenticate_user ::
  "crypt_context \<Rightarrow> session \<Rightarrow> string \<Rightarrow> string \<Rightarrow> exn + user_model option" where
  "authenticate_user pwd_context db name password =
     (case get_user db (JString name) of
        Inl e \<Rightarrow> Inl e
      | Inr None \<Rightarrow> Inr None
      | Inr (Some user) \<Rightarrow>
          (case verify_password pwd_context password (hashed_password user) of
             Inl e \<Rightarrow> Inl e
           | Inr matches \<Rightarrow> if \<not> matches then Inr None else Inr (Some user)))"

section \<open>Issuing and verifying tokens\<close>

text \<open>
  \<^verbatim>\<open>create_access_token(data, secret_key, expires_delta=None)\<close> at clock reading
  \<open>now\<close>. The test \<^verbatim>\<open>if expires_delta:\<close> is Python truthiness: \<^verbatim>\<open>None\<close> and the
  zero \<^verbatim>\<open>timedelta\<close> are both false.
\<close>

definition create_access_token ::
  "datetime \<Rightarrow> claims \<Rightarrow> string \<Rightarrow> timedelta option \<Rightarrow> exn + token" where
  "create_access_token now data key expires_delta =
     (case (case expires_delta of
              None \<Rightarrow> datetime_add now (minutes 15)
            | Some d \<Rightarrow> if d \<noteq> 0 then datetime_add now d else datetime_add now (minutes 15)) of
        Inl e \<Rightarrow> Inl e
      | Inr expire \<Rightarrow> Inr (jwt_encode (data\<lparr>c_exp := Some expire\<rparr>) key ALGORITHM))"

definition credentials_exception :: exn where
  "credentials_exception =
     HTTPException 401 ''Could not validate credentials'' [(''WWW-Authenticate'', ''Bearer'')]"

text \<open>
  The \<^verbatim>\<open>try\<close> block shared by \<^verbatim>\<open>get_current_user\<close> and
  \<^verbatim>\<open>account_activation\<close> is written out in each of them, as in the source; the
  handler \<^verbatim>\<open>except InvalidTokenError\<close> turns the library's errors into
  \<open>credentials_exception\<close> and lets every other exception pass.
\<close>

definition get_current_user :: "datetime \<Rightarrow> token \<Rightarrow> session \<Rightarrow> exn + user_model" where
  "get_current_user now tok db =
     (case (case jwt_decode_unverified tok of
              Inl e \<Rightarrow> Inl (InvalidTokenError e)
            | Inr unverified_payload \<Rightarrow>
                (case sub unverified_payload of
                   JNull \<Rightarrow> Inl credentials_exception
                 | name \<Rightarrow>
                     (case get_user db name of
                        Inl e \<Rightarrow> Inl e
                      | Inr None \<Rightarrow> Inl credentials_exception
                      | Inr (Some user) \<Rightarrow>
                          (case jwt_decode now tok (secret_key user) [ALGORITHM] of
                             Inl e \<Rightarrow> Inl (InvalidTokenError e)
                           | Inr p \<Rightarrow> Inr user)))) of
        Inl (InvalidTokenError e) \<Rightarrow> Inl credentials_exception
      | Inl other \<Rightarrow> Inl other
      | Inr user \<Rightarrow> Inr user)"

definition get_current_active_user :: "user_model \<Rightarrow> exn + user_model" where
  "get_current_active_user current_user =
     (if \<not> activated current_user then Inl (HTTPException 400 ''Inactive user'' [])
      else Inr current_user)"

section \<open>Endpoints\<close>

record register_user_request =
  req_username :: string
  req_email :: string
  req_password :: string

record registration_response_model =
  reg_username :: string
  reg_email :: string
  reg_secret_key :: string
  reg_client_id :: string

record token_model =
  access_token :: token
  token_type :: string

record general_response_model =
  isSuccessful :: bool
  message :: string
  data :: "token list"

text \<open>
  \<^verbatim>\<open>db.add(user); db.commit()\<close>: the insert violates a unique constraint, and the
  commit raises \<^verbatim>\<open>IntegrityError\<close> leaving the table as it was, when one of the four
  unique columns already holds the new row's value. The new row gets the next row id.
\<close>

definition next_id :: "session \<Rightarrow> nat" where
  "next_id db = fold max (map id_pk db) 0 + 1"

definition add_commit :: "session \<Rightarrow> user_model \<Rightarrow> exn + session" where
  "add_commit db user =
     (if username user \<in> set (map username db) \<or> email user \<in> set (map email db) \<or>
         secret_key user \<in> set (map secret_key db) \<or> client_id user \<in> set (map client_id db)
      then Inl IntegrityError
      else Inr (db @ [user]))"

text \<open>
  \<^verbatim>\<open>register_user\<close> has no handler around the hashing or the commit. It returns its
  response or the exception that leaves it, the table and the advanced entropy source.
\<close>

definition register_user ::
  "crypt_context \<Rightarrow> entropy \<Rightarrow> register_user_request \<Rightarrow> session \<Rightarrow>
     (exn + registration_response_model) \<times> session \<times> entropy" where
  "register_user pwd_context src request db =
     (case get_password_hash pwd_context (req_password request) of
        Inl e \<Rightarrow> (Inl e, db, src)
      | Inr hashed \<Rightarrow>
          (let (key, src1) = generate_random_hex None src;
               (cid, src2) = generate_client_id src1;
               user = \<lparr>id_pk = next_id db, username = req_username request,
                       email = req_email request, hashed_password = hashed,
                       activated = False, secret_key = key, client_id = cid\<rparr>
           in case add_commit db user of
                Inl e \<Rightarrow> (Inl e, db, src2)
              | Inr db' \<Rightarrow>
                  (Inr \<lparr>reg_username = username user, reg_email = email user,
                        reg_secret_key = secret_key user, reg_client_id = client_id user\<rparr>,
                   db', src2)))"

definition login_for_access_token ::
  "crypt_context \<Rightarrow> datetime \<Rightarrow> string \<Rightarrow> string \<Rightarrow> session \<Rightarrow> exn + token_model" where
  "login_for_access_token pwd_context now form_username form_password db =
     (case authenticate_user pwd_context db form_username form_password of
        Inl e \<Rightarrow> Inl e
      | Inr None \<Rightarrow>
          Inl (HTTPException 401 ''Incorrect username or password''
                 [(''WWW-Authenticate'', ''Bearer'')])
      | Inr (Some user) \<Rightarrow>
          (let access_token_expires = minutes ACCESS_TOKEN_EXPIRE_MINUTES in
           case create_access_token now \<lparr>c_sub = Some (username user), c_exp = None\<rparr>
                  (secret_key user) (Some access_token_expires) of
             Inl e \<Rightarrow> Inl e
           | Inr t \<Rightarrow> Inr \<lparr>access_token = t, token_type = ''bearer''\<rparr>))"

text \<open>
  \<^verbatim>\<open>retrieve_access_token\<close> receives \<open>current_user\<close> from
  \<open>get_current_active_user\<close>; \<^verbatim>\<open>user.secret_key\<close> on a missing row raises
  \<^verbatim>\<open>AttributeError\<close>.
\<close>

definition retrieve_access_token ::
  "datetime \<Rightarrow> user_model \<Rightarrow> session \<Rightarrow> exn + general_response_model" where
  "retrieve_access_token now current_user db =
     (case get_user db (JString (username current_user)) of
        Inl e \<Rightarrow> Inl e
      | Inr None \<Rightarrow> Inl AttributeError
      | Inr (Some user) \<Rightarrow>
          (case create_access_token now \<lparr>c_sub = Some (username current_user), c_exp = None\<rparr>
                  (secret_key user) None of
             Inl e \<Rightarrow> Inl e
           | Inr t \<Rightarrow>
               Inr \<lparr>isSuccessful = True, message = ''Token retrieved successfully'',
                    data = [t]\<rparr>))"

text \<open>
  \<^verbatim>\<open>user.activated = True; db.commit()\<close> updates the row with the user's primary key.
\<close>

definition set_activated :: "session \<Rightarrow> user_model \<Rightarrow> session" where
  "set_activated db user =
     map (\<lambda>r. if id_pk r = id_pk user then r\<lparr>activated := True\<rparr> else r) db"

definition account_activation ::
  "datetime \<Rightarrow> token \<Rightarrow> session \<Rightarrow> (exn + general_response_model) \<times> session" where
  "account_activation now tok db =
     (case (case jwt_decode_unverified tok of
              Inl e \<Rightarrow> Inl (InvalidTokenError e)
            | Inr unverified_payload \<Rightarrow>
                (case sub unverified_payload of
                   JNull \<Rightarrow> Inl credentials_exception
                 | name \<Rightarrow>
                     (case get_user db name of
                        Inl e \<Rightarrow> Inl e
                      | Inr None \<Rightarrow> Inl credentials_exception
                      | Inr (Some user) \<Rightarrow>
                          (case jwt_decode now tok (secret_key user) [ALGORITHM] of
                             Inl e \<Rightarrow> Inl (InvalidTokenError e)
                           | Inr p \<Rightarrow> Inr user)))) of
        Inl (InvalidTokenError e) \<Rightarrow> (Inl credentials_exception, db)
      | Inl other \<Rightarrow> (Inl other, db)
      | Inr user \<Rightarrow>
          (Inr \<lparr>isSuccessful = True, message = ''Account activated successfully'', data = []\<rparr>,
           set_activated db user))"

section \<open>The verification scheme as the specification words it\<close>


fun signature_verifies :: "token \<Rightarrow> string \<Rightarrow> bool" where
  "signature_verifies (Malformed s) key = False"
| "signature_verifies (Compact h p s) key =
     (alg h = ''HS256'' \<and> s = Sign ''HS256'' (hmac_block key) h p)"

text \<open>The payload of a token that parses, for stating results.\<close>

fun the_payload :: "token \<Rightarrow> payload" where
  "the_payload (Compact h p s) = p"
| "the_payload (Malformed s) =
     \<lparr>sub = JNull, exp = None, nbf = None, iat = None, aud = False, refused = False\<rparr>"

fun expired :: "datetime \<Rightarrow> token \<Rightarrow> bool" where
  "expired now (Malformed s) = False"
| "expired now (Compact h p s) = (case exp p of None \<Rightarrow> False | Some e \<Rightarrow> le_timestamp e now)"

fun immature :: "datetime \<Rightarrow> token \<Rightarrow> bool" where
  "immature now (Malformed s) = False"
| "immature now (Compact h p s) =
     ((case iat p of None \<Rightarrow> False | Some i \<Rightarrow> \<not> le_timestamp i now) \<or>
      (case nbf p of None \<Rightarrow> False | Some n \<Rightarrow> \<not> le_timestamp n now))"

definition claims_valid :: "datetime \<Rightarrow> token \<Rightarrow> bool" where
  "claims_valid now tok =
     (\<not> expired now tok \<and> \<not> immature now tok \<and> \<not> aud (the_payload tok) \<and>
      \<not> refused (the_payload tok))"

section \<open>Sample values\<close>

text \<open>
  Concrete inputs on which the results are evaluated: an entropy source that yields the
  bytes 171, 184, 197, ... (modulo 256), a stand-in for the password hashing library
  that keeps the password readable and raises on a password with a zero byte, and a
  table with the two users alice and bob.
\<close>

definition counting_source :: entropy where
  "counting_source = (\<lambda>i. of_nat (171 + 13 * i))"

definition sample_context :: crypt_context where
  "sample_context =
     \<lparr>cc_hash = (\<lambda>p. if CHR 0x00 \<in> set p then Inl ValueError else Inr (''h:'' @ p)),
      cc_verify = (\<lambda>p h. if CHR 0x00 \<in> set p then Inl ValueError else Inr (h = ''h:'' @ p))\<rparr>"

definition alice_key :: string where
  "alice_key = ''a1a1a1a1a1a1a1a1a1a1a1a1a1a1a1a1a1a1a1a1a1a1a1a1a1a1a1a1a1a1a1a1''"

definition bob_key :: string where
  "bob_key = ''b2b2b2b2b2b2b2b2b2b2b2b2b2b2b2b2b2b2b2b2b2b2b2b2b2b2b2b2b2b2b2b2''"

definition alice :: user_model where
  "alice = \<lparr>id_pk = 1, username = ''alice'', email = ''alice@x.com'',
            hashed_password = ''h:pw123'', activated = False,
            secret_key = alice_key, client_id = ''A1A1A1A1A1A1A1''\<rparr>"

definition bob :: user_model where
  "bob = \<lparr>id_pk = 2, username = ''bob'', email = ''bob@x.com'',
          hashed_password = ''h:hunter2'', activated = False,
          secret_key = bob_key, client_id = ''B2B2B2B2B2B2B2''\<rparr>"

definition sample_db :: session where
  "sample_db = [alice, bob]"

definition hs256_header :: jose_header where
  "hs256_header = \<lparr>alg = ''HS256'', typ_hdr = ''JWT''\<rparr>"

text \<open>The token that alice's key signs for her with expiry \<open>e\<close> (in seconds).\<close>

definition alice_payload :: "int \<Rightarrow> payload" where
  "alice_payload e =
     \<lparr>sub = JString ''alice'', exp = Some e, nbf = None, iat = None, aud = False,
      refused = False\<rparr>"

definition alice_token :: "int \<Rightarrow> token" where
  "alice_token e =
     Compact hs256_header (alice_payload e)
       (Sign ''HS256'' (Inl alice_key) hs256_header (alice_payload e))"

text \<open>A token whose \<open>sub\<close> is a list, with any signature.\<close>

definition list_sub_token :: token where
  "list_sub_token =
     Compact hs256_header
       \<lparr>sub = JContainer, exp = None, nbf = None, iat = None, aud = False, refused = False\<rparr>
       (RawSignature [])"

definition alice_again :: register_user_request where
  "alice_again =
     \<lparr>req_username = ''alice'', req_email = ''alice2@x.com'', req_password = ''pw''\<rparr>"

definition carol_request :: register_user_request where
  "carol_request =
     \<lparr>req_username = ''carol'', req_email = ''carol@x.com'', req_password = ''pw''\<rparr>"

definition carol_response :: registration_response_model where
  "carol_response =
     \<lparr>reg_username = ''carol'', reg_email = ''carol@x.com'',
      reg_secret_key = ''abb8c5d2dfecf90613202d3a4754616e7b8895a2afbcc9d6e3f0fd0a1724313e'',
      reg_client_id = ''4B5865727F8C99''\<rparr>"

text \<open>A password that holds a zero byte, and a registration with it.\<close>

definition nul_password :: string where
  "nul_password = [CHR ''p'', CHR 0x00]"

definition dave_request :: register_user_request where
  "dave_request =
     \<lparr>req_username = ''dave'', req_email = ''dave@x.com'', req_password = nul_password\<rparr>"

section \<open>Results\<close>

subsection \<open>Format of the generated identifiers\<close>

lemma hexdigit_lower: "k < 16 \<Longrightarrow> hexdigits ! k \<in> set ''0123456789abcdef''"
  unfolding hexdigits_def by (simp add: nth_Cons')

lemma hexlify_length: "length (hexlify b) = 2"
  by (simp add: hexlify_def)

lemma hexlify_lower: "lower_hex (hexlify b)"
proof -
  have "unat b < 256" using unsigned_less [of b] by simp
  then have "unat b div 16 < 16" by simp
  moreover have "unat b mod 16 < 16" by simp
  ultimately show ?thesis
    unfolding lower_hex_def hexlify_def using hexdigit_lower by simp
qed

lemma lower_hex_append: "lower_hex (xs @ ys) = (lower_hex xs \<and> lower_hex ys)"
  by (simp add: lower_hex_def)

lemma concat_hexlify_length: "length (concat (map hexlify bs)) = 2 * length bs"
  by (induction bs) (simp_all add: hexlify_length)

lemma concat_hexlify_lower: "lower_hex (concat (map hexlify bs))"
proof (induction bs)
  case Nil
  show ?case by (simp add: lower_hex_def)
next
  case (Cons b bs)
  then show ?case by (simp add: lower_hex_append hexlify_lower)
qed

lemma token_hex_length: "length (fst (token_hex n src)) = 2 * n"
  unfolding token_hex_def token_bytes_def
  using concat_hexlify_length [of "map src [0..<n]"] by simp

lemma token_hex_lower: "lower_hex (fst (token_hex n src))"
  unfolding token_hex_def token_bytes_def
  using concat_hexlify_lower [of "map src [0..<n]"] by simp

lemma upper_char_all: "list_all (\<lambda>c. upper_char c \<in> set ''0123456789ABCDEF'') ''0123456789abcdef''"
  by code_simp

lemma upper_char_hex: "c \<in> set ''0123456789abcdef'' \<Longrightarrow> upper_char c \<in> set ''0123456789ABCDEF''"
  using upper_char_all unfolding list_all_iff by blast

lemma upper_hex_upper: "lower_hex s \<Longrightarrow> upper_hex (upper s)"
  unfolding lower_hex_def upper_hex_def upper_def
  by (induction s) (simp_all add: upper_char_hex del: set_simps)

lemma generate_random_hex_format:
  "length (fst (generate_random_hex None src)) = 64 \<and> lower_hex (fst (generate_random_hex None src))"
  by (simp add: generate_random_hex_def token_hex_length token_hex_lower)

lemma generate_client_id_format:
  "length (fst (generate_client_id src)) = 14 \<and> upper_hex (fst (generate_client_id src))"
proof -
  obtain s src' where t: "token_hex 7 src = (s, src')" by (cases "token_hex 7 src")
  have "length s = 14" "lower_hex s"
    using token_hex_length [of 7 src] token_hex_lower [of 7 src] t by simp_all
  then show ?thesis
    by (simp add: generate_client_id_def t upper_hex_upper) (simp add: upper_def)
qed


lemma sample_key:
  "fst (generate_random_hex None counting_source) =
     ''abb8c5d2dfecf90613202d3a4754616e7b8895a2afbcc9d6e3f0fd0a1724313e''"
  by code_simp

lemma sample_client_id:
  "fst (generate_client_id (snd (generate_random_hex None counting_source))) = ''4B5865727F8C99''"
  by code_simp

lemma carol_registered:
  "fst (register_user sample_context counting_source carol_request sample_db) = Inr carol_response"
  by (simp add: register_user_def get_password_hash_def sample_context_def split_beta Let_def
      sample_key sample_client_id add_commit_def sample_db_def alice_def bob_def alice_key_def
      bob_key_def carol_request_def carol_response_def)


text \<open>
  C9: every registration that succeeds returns a secret key of exactly 64 lowercase
  hexadecimal characters and a client id of exactly 14 uppercase hexadecimal characters,
  whatever bytes the entropy source yields.
\<close>

theorem register_user_key_format:
  assumes "fst (register_user pwd_context src request db) = Inr resp"
  shows "length (reg_secret_key resp) = 64 \<and> lower_hex (reg_secret_key resp) \<and>
         length (reg_client_id resp) = 14 \<and> upper_hex (reg_client_id resp)"
proof -
  obtain key src1 where k: "generate_random_hex None src = (key, src1)"
    by (cases "generate_random_hex None src")
  obtain cid src2 where c: "generate_client_id src1 = (cid, src2)"
    by (cases "generate_client_id src1")
  from assms have "reg_secret_key resp = key" "reg_client_id resp = cid"
    by (auto simp add: register_user_def k c Let_def split: sum.splits)
  moreover have "length key = 64 \<and> lower_hex key"
    using generate_random_hex_format [of src] k by simp
  moreover have "length cid = 14 \<and> upper_hex cid"
    using generate_client_id_format [of src1] c by simp
  ultimately show ?thesis by simp
qed

theorem register_user_key_format_witness:
  "fst (register_user sample_context counting_source carol_request sample_db) = Inr carol_response \<and>
   length (reg_secret_key carol_response) = 64 \<and> lower_hex (reg_secret_key carol_response) \<and>
   length (reg_client_id carol_response) = 14 \<and> upper_hex (reg_client_id carol_response)"
  using register_user_key_format [OF carol_registered] carol_registered by simp

subsection \<open>Rounding of the clock reading\<close>

lemma round_half_even_ge: "0 < b \<Longrightarrow> a div b \<le> round_half_even a b"
  by (simp add: round_half_even_def Let_def)

lemma round_half_even_le: "0 < b \<Longrightarrow> round_half_even a b \<le> a div b + 1"
  by (simp add: round_half_even_def Let_def)

lemma round_half_even_up:
  "round_half_even a b = a div b + 1 \<Longrightarrow> b \<le> 2 * (a mod b)"
  by (simp add: round_half_even_def Let_def split: if_splits)

lemma le_timestamp_past: 
  assumes "e * 1000000 \<le> t"
  shows "le_timestamp e t"
proof -
  define P :: int where "P = 2 ^ scale t"
  have P: "0 < P" by (simp add: P_def)
  from assms have "e * 1000000 * P \<le> t * P" using P by (intro mult_right_mono) simp_all
  then have "(e * P) * 1000000 \<le> t * P" by (simp add: mult.commute mult.left_commute)
  then have "((e * P) * 1000000) div 1000000 \<le> (t * P) div 1000000"
    by (intro zdiv_mono1) simp_all
  then have "e * P \<le> (t * P) div 1000000" by simp
  also have "\<dots> \<le> round_half_even (t * P) 1000000" by (rule round_half_even_ge) simp
  finally show ?thesis by (simp add: le_timestamp_def mantissa_def P_def)
qed

lemma le_timestamp_two_seconds:
  assumes "t div 1000000 + 2 \<le> e"
  shows "\<not> le_timestamp e t"
proof -
  define P :: int where "P = 2 ^ scale t"
  define q where "q = (t * P) div 1000000"
  have P: "1 \<le> P" by (simp add: P_def)
  have "t < (t div 1000000 + 1) * 1000000"
    by presburger
  then have "t * P < (t div 1000000 + 1) * 1000000 * P"
    using P by (intro mult_strict_right_mono) simp_all
  moreover have "q * 1000000 \<le> t * P"
    unfolding q_def by presburger
  ultimately have "q * 1000000 < ((t div 1000000 + 1) * P) * 1000000"
    by (simp add: mult.commute mult.left_commute)
  then have "q < (t div 1000000 + 1) * P" by simp
  moreover have "(t div 1000000 + 1) * P + P \<le> e * P"
  proof -
    from assms have "(t div 1000000 + 2) * P \<le> e * P" using P by (intro mult_right_mono) simp_all
    then show ?thesis by (simp add: algebra_simps)
  qed
  moreover have "round_half_even (t * P) 1000000 \<le> q + 1"
    unfolding q_def by (rule round_half_even_le) simp
  ultimately have "round_half_even (t * P) 1000000 < e * P" using P by linarith
  then show ?thesis by (simp add: le_timestamp_def mantissa_def P_def)
qed

lemma scale_fine:
  assumes "0 < t" and "t < 2 ^ 34 * 1000000"
  shows "19 \<le> scale t"
proof -
  let ?P = "\<lambda>s. (2::int) ^ 52 * 1000000 \<le> \<bar>t\<bar> * 2 ^ s"
  have "?P 72" using assms(1) by simp
  moreover have "(72::nat) \<in> set [0..<73]" by simp
  ultimately have "find ?P [0..<73] \<noteq> None" unfolding find_None_iff by blast
  then obtain s where s: "find ?P [0..<73] = Some s" by blast
  then have "?P s" unfolding find_Some_iff by blast
  have "19 \<le> s"
  proof (rule ccontr)
    assume "\<not> 19 \<le> s"
    then have "s \<le> 18" by simp
    then have "(2::int) ^ s \<le> 2 ^ 18" by (intro power_increasing) simp_all
    then have "\<bar>t\<bar> * 2 ^ s \<le> \<bar>t\<bar> * 2 ^ 18" by (intro mult_left_mono) simp_all
    also have "\<dots> < 2 ^ 52 * 1000000" using assms by simp
    finally show False using \<open>?P s\<close> by simp
  qed
  then show ?thesis unfolding scale_def s by simp
qed

lemma le_timestamp_one_second:
  assumes "0 \<le> t" and "t < 2 ^ 34 * 1000000" and "t div 1000000 + 1 \<le> e"
  shows "\<not> le_timestamp e t"
proof (cases "t = 0")
  case True
  with assms(3) have "0 < e" by simp
  then have "0 < e * 2 ^ scale 0" by simp
  with True show ?thesis
    by (simp add: le_timestamp_def mantissa_def round_half_even_def)
next
  case False
  with assms(1) have "0 < t" by simp
  define P :: int where "P = 2 ^ scale t"
  define a where "a = t * P"
  define q where "q = a div 1000000"
  have "(2::int) ^ 19 \<le> 2 ^ scale t"
    using scale_fine [OF \<open>0 < t\<close> assms(2)] by (intro power_increasing) simp_all
  then have P: "524288 \<le> P" by (simp add: P_def)
  have "t + 1 \<le> (t div 1000000 + 1) * 1000000" by presburger
  also have "\<dots> \<le> e * 1000000" using assms(3) by simp
  finally have "(t + 1) * P \<le> e * 1000000 * P" using P by (intro mult_right_mono) simp_all
  then have a: "a + P \<le> (e * P) * 1000000"
    by (simp add: a_def algebra_simps)
  have qa: "a = q * 1000000 + a mod 1000000" unfolding q_def by presburger
  have r: "0 \<le> a mod 1000000" by simp
  have "round_half_even a 1000000 < e * P"
  proof (rule ccontr)
    assume "\<not> round_half_even a 1000000 < e * P"
    then have m: "e * P \<le> round_half_even a 1000000" by simp
    have le: "round_half_even a 1000000 \<le> q + 1"
      unfolding q_def by (rule round_half_even_le) simp
    from qa r a P have "q * 1000000 < (e * P) * 1000000" by linarith
    then have "q < e * P" by simp
    with m le have up: "round_half_even a 1000000 = a div 1000000 + 1" and qe: "q + 1 = e * P"
      unfolding q_def by linarith+
    from round_half_even_up [OF up] have "1000000 \<le> 2 * (a mod 1000000)" .
    moreover from qa a qe have "a mod 1000000 + P \<le> 1000000" by linarith
    ultimately show False using P by linarith
  qed
  then show ?thesis by (simp add: le_timestamp_def mantissa_def P_def a_def)
qed

lemma rounded_clock: "le_timestamp 17179869185 17179869184999999"
  by code_simp

subsection \<open>Verification\<close>

lemma find_username: "find (\<lambda>u. username u = name) db = Some u \<Longrightarrow> username u = name \<and> u \<in> set db"
  by (induction db) (auto split: if_splits)

lemma find_unique:
  "distinct (map username db) \<Longrightarrow> u \<in> set db \<Longrightarrow> find (\<lambda>r. username r = username u) db = Some u"
  by (induction db) auto


lemma get_current_user_Malformed:
  "get_current_user now (Malformed m) db = Inl credentials_exception"
  by (simp add: get_current_user_def)

lemma jwt_decode_accepts:
  "(\<exists>p'. jwt_decode now (Compact h p s) key [ALGORITHM] = Inr p') \<longleftrightarrow>
     (signature_verifies (Compact h p s) key \<and> claims_valid now (Compact h p s) \<and>
      (sub p = JNull \<or> (\<exists>name. sub p = JString name)))"
  by (cases "sub p") (auto simp add: ALGORITHM_def claims_valid_def split: option.splits)

lemma jwt_decode_cases:
  "(\<exists>e. jwt_decode now tok key algs = Inl e) \<or> (\<exists>p'. jwt_decode now tok key algs = Inr p')"
  by (cases "jwt_decode now tok key algs") auto

lemma get_current_user_JString:
  assumes "sub p = JString name"
  shows "get_current_user now (Compact h p s) db =
     (case find (\<lambda>u. username u = name) db of
        None \<Rightarrow> Inl credentials_exception
      | Some u \<Rightarrow>
          if signature_verifies (Compact h p s) (secret_key u) \<and> claims_valid now (Compact h p s)
          then Inr u else Inl credentials_exception)"
proof (cases "find (\<lambda>u. username u = name) db")
  case None
  with assms show ?thesis by (simp add: get_current_user_def credentials_exception_def)
next
  case (Some u)
  show ?thesis
  proof (cases "jwt_decode now (Compact h p s) (secret_key u) [ALGORITHM]")
    case (Inl e)
    then have "\<not> (\<exists>p'. jwt_decode now (Compact h p s) (secret_key u) [ALGORITHM] = Inr p')"
      by simp
    then have "\<not> (signature_verifies (Compact h p s) (secret_key u) \<and>
        claims_valid now (Compact h p s))"
      using jwt_decode_accepts [of now h p s "secret_key u"] assms by blast
    with Inl Some assms show ?thesis
      by (simp add: get_current_user_def del: jwt_decode.simps signature_verifies.simps)
  next
    case (Inr p')
    then have "\<exists>p'. jwt_decode now (Compact h p s) (secret_key u) [ALGORITHM] = Inr p'"
      by blast
    then have "signature_verifies (Compact h p s) (secret_key u) \<and>
        claims_valid now (Compact h p s)"
      using jwt_decode_accepts [of now h p s "secret_key u"] by blast
    with Inr Some assms show ?thesis
      by (simp add: get_current_user_def del: jwt_decode.simps signature_verifies.simps)
  qed
qed

lemma get_current_user_JScalar:
  assumes "sub p = JScalar text"
  shows "get_current_user now (Compact h p s) db = Inl credentials_exception"
proof (cases "find (\<lambda>u. username u = text) db")
  case None
  with assms show ?thesis by (simp add: get_current_user_def credentials_exception_def)
next
  case (Some u)
  have "\<not> (\<exists>p'. jwt_decode now (Compact h p s) (secret_key u) [ALGORITHM] = Inr p')"
    using jwt_decode_accepts [of now h p s "secret_key u"] assms by simp
  then obtain e where "jwt_decode now (Compact h p s) (secret_key u) [ALGORITHM] = Inl e"
    using jwt_decode_cases by blast
  with Some assms show ?thesis
    by (simp add: get_current_user_def del: jwt_decode.simps)
qed

lemma get_current_user_JNull:
  "sub p = JNull \<Longrightarrow> get_current_user now (Compact h p s) db = Inl credentials_exception"
  by (simp add: get_current_user_def credentials_exception_def)

lemma get_current_user_JContainer:
  "sub p = JContainer \<Longrightarrow> get_current_user now (Compact h p s) db = Inl DBAPIError"
  by (simp add: get_current_user_def)

lemma get_current_user_Inr:
  assumes "get_current_user now tok db = Inr u"
  shows "\<exists>h p s. tok = Compact h p s \<and> sub p = JString (username u) \<and>
       find (\<lambda>r. username r = username u) db = Some u \<and>
       signature_verifies tok (secret_key u) \<and> claims_valid now tok"
proof (cases tok)
  case (Malformed m)
  with assms show ?thesis by (simp add: get_current_user_Malformed)
next
  case (Compact h p s)
  show ?thesis
  proof (cases "sub p")
    case JNull
    with assms Compact show ?thesis by (simp add: get_current_user_JNull)
  next
    case (JString name)
    with assms Compact obtain r where
      r: "find (\<lambda>u. username u = name) db = Some r"
        "signature_verifies (Compact h p s) (secret_key r)" "claims_valid now (Compact h p s)"
        "r = u"
      by (auto simp add: get_current_user_JString simp del: signature_verifies.simps
          split: option.splits if_splits)
    from r(1) find_username have "username r = name" by blast
    with r JString Compact show ?thesis by simp
  next
    case (JScalar t)
    with assms Compact show ?thesis by (simp add: get_current_user_JScalar)
  next
    case JContainer
    with assms Compact show ?thesis by (simp add: get_current_user_JContainer)
  qed
qed

lemma get_current_user_failure:
  assumes "get_current_user now tok db = Inl e" and "sub (the_payload tok) \<noteq> JContainer"
  shows "e = credentials_exception"
proof (cases tok)
  case (Malformed m)
  with assms show ?thesis by (simp add: get_current_user_Malformed)
next
  case (Compact h p s)
  show ?thesis
  proof (cases "sub p")
    case JNull
    with assms Compact show ?thesis by (simp add: get_current_user_JNull)
  next
    case (JString name)
    with assms Compact show ?thesis
      by (auto simp add: get_current_user_JString simp del: signature_verifies.simps
          split: option.splits if_splits)
  next
    case (JScalar t)
    with assms Compact show ?thesis by (simp add: get_current_user_JScalar)
  next
    case JContainer
    with assms Compact show ?thesis by simp
  qed
qed

lemma sample_db_unique: "unique_columns sample_db"
  by (simp add: unique_columns_def sample_db_def alice_def bob_def alice_key_def bob_key_def)

lemma alice_key_generated: "generated_key alice_key"
  unfolding generated_key_def lower_hex_def alice_key_def by code_simp

lemma bob_key_generated: "generated_key bob_key"
  unfolding generated_key_def lower_hex_def bob_key_def by code_simp

lemma sample_db_generated: "generated_keys sample_db"
  by (simp add: generated_keys_def sample_db_def alice_def bob_def alice_key_generated
      bob_key_generated)

lemma alice_key_block: "hmac_block alice_key = Inl alice_key"
  by (simp add: hmac_block_def alice_key_def)

lemma alice_signature: "signature_verifies (alice_token e) (secret_key alice)"
  by (simp add: alice_token_def alice_def alice_key_block hs256_header_def)

lemma alice_found: "find (\<lambda>u. username u = ''alice'') sample_db = Some alice"
  by (simp add: sample_db_def alice_def)

lemma alice_current: "get_current_user 5000000 (alice_token 10) sample_db = Inr alice"
proof -
  have "\<not> le_timestamp 10 5000000" by (rule le_timestamp_two_seconds) simp
  then have "claims_valid 5000000 (alice_token 10)"
    by (simp add: claims_valid_def alice_token_def alice_payload_def)
  then show ?thesis
    using alice_signature [of 10] alice_found
    by (simp add: alice_token_def alice_payload_def get_current_user_JString
        del: signature_verifies.simps)
qed

lemma alice_expired:
  assumes "10000000 \<le> now"
  shows "get_current_user now (alice_token 10) sample_db = Inl credentials_exception"
proof -
  have "le_timestamp 10 now" using assms by (intro le_timestamp_past) simp
  then have "\<not> claims_valid now (alice_token 10)"
    by (simp add: claims_valid_def alice_token_def alice_payload_def)
  then show ?thesis
    using alice_found
    by (simp add: alice_token_def alice_payload_def get_current_user_JString
        del: signature_verifies.simps)
qed




subsection \<open>Account activation\<close>

lemma account_activation_eq:
  "account_activation now tok db =
     (case get_current_user now tok db of
        Inl e \<Rightarrow> (Inl e, db)
      | Inr user \<Rightarrow>
          (Inr \<lparr>isSuccessful = True, message = ''Account activated successfully'', data = []\<rparr>,
           set_activated db user))"
  unfolding account_activation_def get_current_user_def
  by (simp split: sum.splits option.splits exn.splits json_value.splits)

lemma find_set_activated:
  "find (\<lambda>r. username r = name) db = Some u \<Longrightarrow>
     find (\<lambda>r. username r = name) (set_activated db u) = Some (u\<lparr>activated := True\<rparr>)"
  unfolding set_activated_def
  by (induction db) (auto split: if_splits)

text \<open>
  C8: \<open>account_activation\<close> runs the same verification as \<open>get_current_user\<close>. For
  every token, table and clock reading it fails with the same exception when
  \<open>get_current_user\<close> fails, leaving the table as it was, and succeeds when
  \<open>get_current_user\<close> resolves a user; then that user's row has
  \<open>activated = True\<close> afterwards.
\<close>

theorem account_activation_same_verification:
  "account_activation now tok db =
     (case get_current_user now tok db of
        Inl e \<Rightarrow> (Inl e, db)
      | Inr user \<Rightarrow>
          (Inr \<lparr>isSuccessful = True, message = ''Account activated successfully'', data = []\<rparr>,
           set_activated db user)) \<and>
   (\<forall>user. get_current_user now tok db = Inr user \<longrightarrow>
      get_user (snd (account_activation now tok db)) (JString (username user)) =
        Inr (Some (user\<lparr>activated := True\<rparr>)))"
proof -
  have "get_user (snd (account_activation now tok db)) (JString (username user)) =
          Inr (Some (user\<lparr>activated := True\<rparr>))"
    if u: "get_current_user now tok db = Inr user" for user
  proof -
    from get_current_user_Inr [OF u]
    have "find (\<lambda>r. username r = username user) db = Some user" by blast
    then show ?thesis
      by (simp add: account_activation_eq u find_set_activated)
  qed
  then show ?thesis by (simp add: account_activation_eq)
qed

theorem account_activation_same_verification_witness:
  "get_current_user 5000000 (alice_token 10) sample_db = Inr alice \<and>
   account_activation 5000000 (alice_token 10) sample_db =
     (Inr \<lparr>isSuccessful = True, message = ''Account activated successfully'', data = []\<rparr>,
      [alice\<lparr>activated := True\<rparr>, bob]) \<and>
   get_user (snd (account_activation 5000000 (alice_token 10) sample_db)) (JString (username alice)) =
     Inr (Some (alice\<lparr>activated := True\<rparr>))"
  using account_activation_same_verification [of 5000000 "alice_token 10" sample_db] alice_current
  by (simp add: set_activated_def sample_db_def alice_def bob_def)

text \<open>
  C10: when \<open>account_activation\<close> fails, the table is unchanged; and unless the token's
  \<open>sub\<close> is a list or object, the exception is the 401 response
  \<open>credentials_exception\<close>.
\<close>

theorem account_activation_failure_keeps_store:
  assumes "fst (account_activation now tok db) = Inl e"
  shows "snd (account_activation now tok db) = db \<and>
         (sub (the_payload tok) \<noteq> JContainer \<longrightarrow>
            e = credentials_exception \<and> status_code e = 401)"
proof (cases "get_current_user now tok db")
  case (Inl e')
  with assms have "e = e'" "snd (account_activation now tok db) = db"
    by (simp_all add: account_activation_eq)
  moreover have "e' = credentials_exception" if "sub (the_payload tok) \<noteq> JContainer"
    using Inl that by (rule get_current_user_failure)
  ultimately show ?thesis by (simp add: credentials_exception_def)
next
  case (Inr user)
  with assms show ?thesis by (simp add: account_activation_eq)
qed

theorem account_activation_failure_keeps_store_witness:
  "fst (account_activation 11000000 (alice_token 10) sample_db) = Inl credentials_exception \<and>
   sub (the_payload (alice_token 10)) \<noteq> JContainer \<and>
   status_code credentials_exception = 401 \<and>
   snd (account_activation 11000000 (alice_token 10) sample_db) = sample_db \<and>
   fst (account_activation 11000000 list_sub_token sample_db) = Inl DBAPIError \<and>
   snd (account_activation 11000000 list_sub_token sample_db) = sample_db"
proof -
  have f: "fst (account_activation 11000000 (alice_token 10) sample_db) = Inl credentials_exception"
    by (simp add: account_activation_eq alice_expired)
  have g: "fst (account_activation 11000000 list_sub_token sample_db) = Inl DBAPIError"
    by (simp add: account_activation_eq list_sub_token_def get_current_user_JContainer)
  from account_activation_failure_keeps_store [OF f] account_activation_failure_keeps_store [OF g]
    f g
  show ?thesis by (simp add: alice_token_def alice_payload_def)
qed

subsection \<open>Expiry\<close>

lemma expired_not_accepted:
  "expired now tok \<Longrightarrow> get_current_user now tok db \<noteq> Inr u"
  using get_current_user_Inr [of now tok db u] by (auto simp add: claims_valid_def)

lemma expired_rejected:
  assumes "expired now tok" and "sub (the_payload tok) \<noteq> JContainer"
  shows "get_current_user now tok db = Inl credentials_exception"
proof (cases "get_current_user now tok db")
  case (Inl e)
  with assms(2) show ?thesis using get_current_user_failure by blast
next
  case (Inr u)
  with assms(1) show ?thesis using expired_not_accepted by blast
qed


lemma expired_jwt_encode:
  "expired now (jwt_encode c key a) =
     (case c_exp c of None \<Rightarrow> False | Some t \<Rightarrow> le_timestamp (timegm t) now)"
  by (simp add: jwt_encode_def Let_def split: option.splits)






subsection \<open>Issuing and verifying\<close>

lemma generated_key_block: "generated_key k \<Longrightarrow> hmac_block k = Inl k"
  by (simp add: generated_key_def hmac_block_def)

lemma generated_keys_member: "generated_keys db \<Longrightarrow> u \<in> set db \<Longrightarrow> generated_key (secret_key u)"
  by (simp add: generated_keys_def list_all_iff)

lemma signature_verifies_jwt_encode:
  "signature_verifies (jwt_encode c key ALGORITHM) key' = (hmac_block key = hmac_block key')"
  by (auto simp add: jwt_encode_def Let_def ALGORITHM_def)

lemma claims_valid_jwt_encode:
  "claims_valid now (jwt_encode c key a) = (\<not> expired now (jwt_encode c key a))"
  by (simp add: claims_valid_def jwt_encode_def Let_def)

lemma get_current_user_jwt_encode:
  assumes "find (\<lambda>r. username r = name) db = Some u" and "c_sub c = Some name"
  shows "get_current_user now (jwt_encode c key ALGORITHM) db =
     (if hmac_block key = hmac_block (secret_key u) \<and> \<not> expired now (jwt_encode c key ALGORITHM)
      then Inr u else Inl credentials_exception)"
proof -
  obtain h p s where t: "jwt_encode c key ALGORITHM = Compact h p s"
    by (simp add: jwt_encode_def Let_def)
  then have "sub p = JString name" using assms(2) by (auto simp add: jwt_encode_def Let_def)
  then have "get_current_user now (Compact h p s) db =
     (if signature_verifies (Compact h p s) (secret_key u) \<and> claims_valid now (Compact h p s)
      then Inr u else Inl credentials_exception)"
    using assms(1) by (simp add: get_current_user_JString del: signature_verifies.simps)
  then show ?thesis
    using signature_verifies_jwt_encode [of c key "secret_key u"]
      claims_valid_jwt_encode [of now c key ALGORITHM]
    by (simp add: t del: signature_verifies.simps expired.simps)
qed

text \<open>
  C2, as amended: for a user \<open>u\<close> of a table whose unique columns hold and whose keys
  have the generated form, with the secret key of \<open>u\<close> and an expiry that a
  \<^verbatim>\<open>datetime\<close> can represent, \<open>create_access_token\<close> returns a token and
  \<open>get_current_user\<close> at the same clock reading resolves it to \<open>u\<close>, if the time to
  live is at least two seconds, or at least one second while the clock reads between the
  epoch and \<open>2\<^sup>3\<^sup>4\<close> seconds after it (the year 2514).
\<close>

theorem issued_token_round_trip:
  assumes "unique_columns db" and "generated_keys db" and "u \<in> set db"
    and "datetime_min \<le> now" and "now + ttl \<le> datetime_max"
    and "2000000 \<le> ttl \<or> (1000000 \<le> ttl \<and> 0 \<le> now \<and> now < 2 ^ 34 * 1000000)"
  shows "\<exists>tok. create_access_token now \<lparr>c_sub = Some (username u), c_exp = None\<rparr>
             (secret_key u) (Some ttl) = Inr tok \<and>
           get_current_user now tok db = Inr u"
proof -
  let ?c = "\<lparr>c_sub = Some (username u), c_exp = Some (now + ttl)\<rparr>"
  let ?tok = "jwt_encode ?c (secret_key u) ALGORITHM"
  from assms(4-6) have
    "create_access_token now \<lparr>c_sub = Some (username u), c_exp = None\<rparr> (secret_key u) (Some ttl) =
       Inr ?tok"
    by (auto simp add: create_access_token_def datetime_add_def)
  moreover from assms(1,3) have g: "find (\<lambda>r. username r = username u) db = Some u"
    by (simp add: unique_columns_def find_unique)
  have "\<not> le_timestamp (timegm (now + ttl)) now"
  proof -
    from assms(6) show ?thesis
    proof
      assume "2000000 \<le> ttl"
      then have "(now + 2 * 1000000) div 1000000 \<le> (now + ttl) div 1000000"
        by (intro zdiv_mono1) simp_all
      then have "now div 1000000 + 2 \<le> (now + ttl) div 1000000" by simp
      then show ?thesis unfolding timegm_def by (rule le_timestamp_two_seconds)
    next
      assume a: "1000000 \<le> ttl \<and> 0 \<le> now \<and> now < 2 ^ 34 * 1000000"
      then have "(now + 1 * 1000000) div 1000000 \<le> (now + ttl) div 1000000"
        by (intro zdiv_mono1) simp_all
      then have "now div 1000000 + 1 \<le> (now + ttl) div 1000000" by simp
      with a show ?thesis unfolding timegm_def by (intro le_timestamp_one_second) simp_all
    qed
  qed
  then have "\<not> expired now ?tok" by (simp add: expired_jwt_encode)
  with g have "get_current_user now ?tok db = Inr u"
    by (simp add: get_current_user_jwt_encode [OF g] del: expired.simps)
  ultimately show ?thesis by blast
qed

lemma alice_issue:
  assumes "datetime_min \<le> now + d" and "now + d \<le> datetime_max" and "d \<noteq> 0"
  shows "create_access_token now \<lparr>c_sub = Some (username alice), c_exp = None\<rparr>
     (secret_key alice) (Some d) = Inr (alice_token ((now + d) div 1000000))"
  using assms
  by (simp add: create_access_token_def datetime_add_def
      jwt_encode_def Let_def timegm_def ALGORITHM_def alice_token_def alice_payload_def
      hs256_header_def alice_key_block alice_def)

theorem issued_token_round_trip_witness:
  "unique_columns sample_db \<and> generated_keys sample_db \<and> alice \<in> set sample_db \<and>
   datetime_min \<le> 1500000 \<and> 1500000 + 1800000000 \<le> datetime_max \<and>
   (2000000::int) \<le> 1800000000 \<and>
   create_access_token 1500000 \<lparr>c_sub = Some (username alice), c_exp = None\<rparr>
     (secret_key alice) (Some 1800000000) = Inr (alice_token 1801) \<and>
   get_current_user 1500000 (alice_token 1801) sample_db = Inr alice"
proof -
  have a: "alice \<in> set sample_db" by (simp add: sample_db_def)
  have b: "datetime_min \<le> 1500000" "1500000 + 1800000000 \<le> datetime_max"
    by (simp_all add: datetime_min_def datetime_max_def)
  have c: "create_access_token 1500000 \<lparr>c_sub = Some (username alice), c_exp = None\<rparr>
     (secret_key alice) (Some 1800000000) = Inr (alice_token 1801)"
    using alice_issue [of 1500000 1800000000] by (simp add: datetime_min_def datetime_max_def)
  from issued_token_round_trip [of sample_db alice 1500000 1800000000]
    sample_db_unique sample_db_generated a b c
  have "get_current_user 1500000 (alice_token 1801) sample_db = Inr alice" by simp
  with sample_db_unique sample_db_generated a b c show ?thesis by simp
qed

theorem issued_token_round_trip_counterexample:
  "unique_columns sample_db \<and> alice \<in> set sample_db \<and> (0::int) < 1 \<and>
   create_access_token 1500000 \<lparr>c_sub = Some (username alice), c_exp = None\<rparr>
     (secret_key alice) (Some 1) = Inr (alice_token 1) \<and>
   get_current_user 1500000 (alice_token 1) sample_db = Inl credentials_exception \<and>
   (0::int) < 1000000 \<and>
   create_access_token 17179869184999999 \<lparr>c_sub = Some (username alice), c_exp = None\<rparr>
     (secret_key alice) (Some 1000000) = Inr (alice_token 17179869185) \<and>
   get_current_user 17179869184999999 (alice_token 17179869185) sample_db =
     Inl credentials_exception"
proof -
  have "create_access_token 1500000 \<lparr>c_sub = Some (username alice), c_exp = None\<rparr>
     (secret_key alice) (Some 1) = Inr (alice_token 1)"
    using alice_issue [of 1500000 1] by (simp add: datetime_min_def datetime_max_def)
  moreover have "create_access_token 17179869184999999
     \<lparr>c_sub = Some (username alice), c_exp = None\<rparr> (secret_key alice) (Some 1000000) =
       Inr (alice_token 17179869185)"
    using alice_issue [of 17179869184999999 1000000]
    by (simp add: datetime_min_def datetime_max_def)
  moreover have "le_timestamp 1 1500000" by (rule le_timestamp_past) simp
  then have "get_current_user 1500000 (alice_token 1) sample_db = Inl credentials_exception"
    by (intro expired_rejected) (simp_all add: alice_token_def alice_payload_def)
  moreover have "get_current_user 17179869184999999 (alice_token 17179869185) sample_db =
     Inl credentials_exception"
    using rounded_clock by (intro expired_rejected) (simp_all add: alice_token_def alice_payload_def)
  ultimately show ?thesis using sample_db_unique by (simp add: sample_db_def)
qed

subsection \<open>Forgery across users\<close>

lemma distinct_secret_keys:
  assumes "distinct (map secret_key db)" and "u \<in> set db" and "v \<in> set db" and "u \<noteq> v"
  shows "secret_key u \<noteq> secret_key v"
  using assms by (auto simp add: distinct_map inj_on_def)

text \<open>
  C3: in a table whose unique columns hold and whose secret keys have the generated
  form, a token that carries the username of \<open>u\<close> as \<open>sub\<close> but is signed with the
  secret key of another user \<open>v\<close> is rejected with the 401 response; and whenever
  \<open>get_current_user\<close> accepts a token for a user, that user is a row of the table and
  the token's signature verifies under that user's stored secret key.
\<close>

theorem cross_user_forgery_rejected:
  "(unique_columns db \<and> generated_keys db \<and> u \<in> set db \<and> v \<in> set db \<and> u \<noteq> v \<and>
    c_sub c = Some (username u) \<longrightarrow>
      get_current_user now (jwt_encode c (secret_key v) ALGORITHM) db = Inl credentials_exception \<and>
      status_code credentials_exception = 401) \<and>
   (get_current_user now tok db = Inr w \<longrightarrow>
      w \<in> set db \<and> signature_verifies tok (secret_key w))"
proof -
  have "get_current_user now (jwt_encode c (secret_key v) ALGORITHM) db = Inl credentials_exception"
    if a: "unique_columns db" "generated_keys db" "u \<in> set db" "v \<in> set db" "u \<noteq> v"
      "c_sub c = Some (username u)"
  proof -
    from a have g: "find (\<lambda>r. username r = username u) db = Some u"
      by (simp add: unique_columns_def find_unique)
    from a have "secret_key v \<noteq> secret_key u"
      using distinct_secret_keys [of db v u] by (simp add: unique_columns_def)
    moreover from a have "hmac_block (secret_key u) = Inl (secret_key u)"
      and "hmac_block (secret_key v) = Inl (secret_key v)"
      using generated_keys_member generated_key_block by blast+
    ultimately have "hmac_block (secret_key v) \<noteq> hmac_block (secret_key u)" by simp
    then show ?thesis
      by (simp add: get_current_user_jwt_encode [OF g a(6)] del: expired.simps)
  qed
  moreover have "w \<in> set db \<and> signature_verifies tok (secret_key w)"
    if b: "get_current_user now tok db = Inr w"
  proof -
    from get_current_user_Inr [OF b] have
      t: "find (\<lambda>r. username r = username w) db = Some w" "signature_verifies tok (secret_key w)"
      by blast+
    from t(1) have "w \<in> set db" using find_username by blast
    with t show ?thesis by simp
  qed
  ultimately show ?thesis by (simp add: credentials_exception_def)
qed

lemma alice_ne_bob: "alice \<noteq> bob"
  by (simp add: alice_def bob_def)

theorem cross_user_forgery_rejected_witness:
  "unique_columns sample_db \<and> generated_keys sample_db \<and> alice \<in> set sample_db \<and>
   bob \<in> set sample_db \<and> alice \<noteq> bob \<and>
   get_current_user 5000000
     (jwt_encode \<lparr>c_sub = Some (username alice), c_exp = Some 10000000\<rparr> (secret_key bob) ALGORITHM)
     sample_db = Inl credentials_exception \<and>
   get_current_user 5000000 (alice_token 10) sample_db = Inr alice \<and>
   signature_verifies (alice_token 10) (secret_key alice)"
  using
    cross_user_forgery_rejected [of sample_db alice bob
      "\<lparr>c_sub = Some (username alice), c_exp = Some 10000000\<rparr>" 5000000 "alice_token 10" alice]
    sample_db_unique sample_db_generated alice_ne_bob alice_current
  by (simp add: sample_db_def del: signature_verifies.simps)

subsection \<open>The table's invariants are kept\<close>

lemma next_id_fresh: "next_id db \<notin> set (map id_pk db)"
proof
  assume "next_id db \<in> set (map id_pk db)"
  then have "next_id db \<le> Max (set (0 # map id_pk db))" by (intro Max_ge) simp_all
  also have "\<dots> = fold max (map id_pk db) 0" by (rule Max.set_eq_fold)
  finally show False by (simp add: next_id_def)
qed

lemma register_user_unique:
  assumes "unique_columns db"
  shows "unique_columns (fst (snd (register_user pwd_context src request db)))"
  using assms next_id_fresh [of db]
  by (auto simp add: register_user_def add_commit_def split_beta Let_def unique_columns_def
      split: sum.splits)

lemma register_user_generated:
  assumes "generated_keys db"
  shows "generated_keys (fst (snd (register_user pwd_context src request db)))"
  using assms generate_random_hex_format [of src]
  by (auto simp add: register_user_def add_commit_def split_beta Let_def generated_keys_def
      generated_key_def split: sum.splits)

lemma set_activated_columns:
  "map id_pk (set_activated db u) = map id_pk db"
  "map username (set_activated db u) = map username db"
  "map email (set_activated db u) = map email db"
  "map secret_key (set_activated db u) = map secret_key db"
  "map client_id (set_activated db u) = map client_id db"
  by (simp_all add: set_activated_def)

lemma account_activation_unique:
  assumes "unique_columns db"
  shows "unique_columns (snd (account_activation now tok db))"
  using assms
  by (simp add: account_activation_eq unique_columns_def set_activated_columns split: sum.splits)

lemma account_activation_generated:
  assumes "generated_keys db"
  shows "generated_keys (snd (account_activation now tok db))"
proof -
  have "list_all (\<lambda>u. generated_key (secret_key u)) (set_activated db v) =
      list_all generated_key (map secret_key (set_activated db v))" for v
    by (simp add: list_all_iff)
  with assms show ?thesis
    by (simp add: account_activation_eq generated_keys_def set_activated_columns list_all_iff
        split: sum.splits)
qed

subsection \<open>Login\<close>






subsection \<open>Registration\<close>

text \<open>
  C4, as amended: when the password hashing raises, \<open>register_user\<close> leaves with that
  exception before anything is inserted. When it returns and the requested username or
  email is already in the table, \<open>register_user\<close> fails with the
  \<^verbatim>\<open>IntegrityError\<close> of the commit, which no handler translates, so the response is
  500, and the table is unchanged. When username and email are new and the freshly
  generated secret key and client id are not in the table either, it succeeds and
  appends the new row with \<open>activated = False\<close>.
\<close>

theorem register_user_conflict:
  "(get_password_hash pwd_context (req_password request) = Inl e \<longrightarrow>
      fst (register_user pwd_context src request db) = Inl e \<and>
      fst (snd (register_user pwd_context src request db)) = db) \<and>
   (get_password_hash pwd_context (req_password request) = Inr hashed \<and>
    (req_username request \<in> set (map username db) \<or> req_email request \<in> set (map email db)) \<longrightarrow>
      fst (register_user pwd_context src request db) = Inl IntegrityError \<and>
      status_code IntegrityError = 500 \<and>
      fst (snd (register_user pwd_context src request db)) = db) \<and>
   (get_password_hash pwd_context (req_password request) = Inr hashed \<and>
    req_username request \<notin> set (map username db) \<and> req_email request \<notin> set (map email db) \<and>
    fst (generate_random_hex None src) \<notin> set (map secret_key db) \<and>
    fst (generate_client_id (snd (generate_random_hex None src))) \<notin> set (map client_id db) \<longrightarrow>
      fst (register_user pwd_context src request db) =
        Inr \<lparr>reg_username = req_username request, reg_email = req_email request,
             reg_secret_key = fst (generate_random_hex None src),
             reg_client_id = fst (generate_client_id (snd (generate_random_hex None src)))\<rparr> \<and>
      fst (snd (register_user pwd_context src request db)) =
        db @ [\<lparr>id_pk = next_id db, username = req_username request, email = req_email request,
                hashed_password = hashed, activated = False,
                secret_key = fst (generate_random_hex None src),
                client_id = fst (generate_client_id (snd (generate_random_hex None src)))\<rparr>])"
  by (simp add: register_user_def add_commit_def split_beta Let_def)

lemma alice_again_rejected:
  "fst (register_user sample_context counting_source alice_again sample_db) = Inl IntegrityError"
  by (simp add: register_user_def get_password_hash_def sample_context_def add_commit_def
      split_beta Let_def alice_again_def sample_db_def alice_def)

theorem register_user_conflict_counterexample:
  "req_username alice_again \<in> set (map username sample_db) \<and>
   fst (register_user sample_context counting_source alice_again sample_db) = Inl IntegrityError \<and>
   status_code IntegrityError = 500 \<and> status_code IntegrityError \<noteq> 409"
  using alice_again_rejected by (simp add: alice_again_def sample_db_def alice_def)

lemma sample_hashes:
  "get_password_hash sample_context ''pw'' = Inr ''h:pw''"
  "get_password_hash sample_context nul_password = Inl ValueError"
  by (simp_all add: get_password_hash_def sample_context_def nul_password_def)

theorem register_user_conflict_witness:
  "get_password_hash sample_context (req_password dave_request) = Inl ValueError \<and>
   fst (register_user sample_context counting_source dave_request sample_db) = Inl ValueError \<and>
   fst (snd (register_user sample_context counting_source dave_request sample_db)) = sample_db \<and>
   get_password_hash sample_context (req_password alice_again) = Inr ''h:pw'' \<and>
   req_username alice_again \<in> set (map username sample_db) \<and>
   fst (register_user sample_context counting_source alice_again sample_db) = Inl IntegrityError \<and>
   fst (snd (register_user sample_context counting_source alice_again sample_db)) = sample_db \<and>
   req_username carol_request \<notin> set (map username sample_db) \<and>
   req_email carol_request \<notin> set (map email sample_db) \<and>
   fst (register_user sample_context counting_source carol_request sample_db) = Inr carol_response \<and>
   fst (snd (register_user sample_context counting_source carol_request sample_db)) =
     sample_db @
       [\<lparr>id_pk = 3, username = ''carol'', email = ''carol@x.com'', hashed_password = ''h:pw'',
         activated = False, secret_key = reg_secret_key carol_response,
         client_id = reg_client_id carol_response\<rparr>]"
  using
    register_user_conflict [of sample_context dave_request ValueError counting_source sample_db
      "''h:pw''"]
    register_user_conflict [of sample_context alice_again ValueError counting_source sample_db
      "''h:pw''"]
    register_user_conflict [of sample_context carol_request ValueError counting_source sample_db
      "''h:pw''"]
    sample_hashes
  by (simp add: sample_key sample_client_id alice_again_def carol_request_def carol_response_def
      dave_request_def sample_db_def alice_def bob_def alice_key_def bob_key_def next_id_def)

subsection \<open>Expiry of issued tokens\<close>

text \<open>
  With a non-zero \<open>expires_delta\<close> the expiry handed to the encoder is
  \<open>now + expires_delta\<close>, with none it is \<open>now\<close> plus 15 minutes; the login flow
  passes 30 minutes and \<open>retrieve_access_token\<close> passes none.
\<close>

lemma create_access_token_explicit:
  assumes "d \<noteq> 0" and "datetime_min \<le> now + d" and "now + d \<le> datetime_max"
  shows "create_access_token now dat key (Some d) =
     Inr (jwt_encode (dat\<lparr>c_exp := Some (now + d)\<rparr>) key ALGORITHM)"
  using assms by (simp add: create_access_token_def datetime_add_def)

lemma create_access_token_default:
  assumes "datetime_min \<le> now + minutes 15" and "now + minutes 15 \<le> datetime_max"
  shows "create_access_token now dat key None =
     Inr (jwt_encode (dat\<lparr>c_exp := Some (now + minutes 15)\<rparr>) key ALGORITHM)"
  using assms by (simp add: create_access_token_def datetime_add_def)

lemma login_token_expiry:
  assumes "authenticate_user pwd_context db name password = Inr (Some user)"
    and "datetime_min \<le> now + minutes 30" and "now + minutes 30 \<le> datetime_max"
  shows "login_for_access_token pwd_context now name password db =
     Inr \<lparr>access_token =
            jwt_encode \<lparr>c_sub = Some (username user), c_exp = Some (now + minutes 30)\<rparr>
              (secret_key user) ALGORITHM,
          token_type = ''bearer''\<rparr>"
proof -
  have "minutes 30 \<noteq> 0" by (simp add: minutes_def)
  then show ?thesis
    using assms
    by (simp add: login_for_access_token_def ACCESS_TOKEN_EXPIRE_MINUTES_def
        create_access_token_explicit)
qed

lemma retrieve_token_expiry:
  assumes "find (\<lambda>u. username u = username current_user) db = Some user"
    and "datetime_min \<le> now + minutes 15" and "now + minutes 15 \<le> datetime_max"
  shows "retrieve_access_token now current_user db =
     Inr \<lparr>isSuccessful = True, message = ''Token retrieved successfully'',
          data =
            [jwt_encode \<lparr>c_sub = Some (username current_user), c_exp = Some (now + minutes 15)\<rparr>
               (secret_key user) ALGORITHM]\<rparr>"
  using assms by (simp add: retrieve_access_token_def create_access_token_default)

text \<open>
  C6: the claim fails on an explicit \<open>expires_delta\<close> of zero. At clock reading 1 s,
  \<open>create_access_token\<close> with \<^verbatim>\<open>timedelta(0)\<close> returns a token with \<open>exp\<close> = 901 s,
  the same token as with no \<open>expires_delta\<close>, where \<open>now + ttl\<close> is 1 s.
\<close>

theorem zero_expires_delta_gets_default:
  "create_access_token 1000000 \<lparr>c_sub = Some ''alice'', c_exp = None\<rparr> alice_key (Some 0) =
     Inr (alice_token 901) \<and>
   create_access_token 1000000 \<lparr>c_sub = Some ''alice'', c_exp = None\<rparr> alice_key None =
     Inr (alice_token 901) \<and>
   the_payload (alice_token 901) =
     \<lparr>sub = JString ''alice'', exp = Some (1 + 15 * 60), nbf = None, iat = None, aud = False,
      refused = False\<rparr>"
  by (simp add: create_access_token_def datetime_add_def datetime_min_def datetime_max_def
      minutes_def jwt_encode_def Let_def timegm_def ALGORITHM_def alice_token_def
      alice_payload_def hs256_header_def alice_key_block)

end
